theory Spec2Isabelle
  imports Main "HOL-Library.AList"
begin

section \<open>Python values, objects and the store\<close>

text \<open>
  The package \<open>override_field/fields.py\<close> is a descriptor layer on top of a host ORM.
  Model instances are mutable Python objects that several views and several columns may
  reference at once, so they live in an explicit store: an address stands for an object,
  and the store maps it to the object's attribute dictionary. A Python \<open>dict\<close> whose
  order matters is an association list updated with \<open>AList.update\<close> (an existing key
  keeps its place, a new key goes to the end); two dicts are equal in the sense of
  Python's \<open>==\<close> when they hold the same key/value pairs.
\<close>

datatype error = AttributeError | KeyError | TypeError | NameError | RecursionError

type_synonym addr = nat

text \<open>
  \<open>_generate_instance_class(owner_field)\<close> returns a new class object that closes over
  its owner field; the class reads \<open>owner_field.names\<close> when a view is constructed.
\<close>

record instance_class =
  class_id :: nat
  owner_names :: "string list"

text \<open>
  \<open>MultiColumnField\<close>. The sub-field specifications are objects of the host ORM and
  stay abstract (\<open>'f\<close>). \<open>mcf_fields\<close> is the attribute \<open>fields\<close>, the declared mapping in
  insertion order (\<open>fields\<close> itself is a name the record package reserves).
\<close>

record 'f MultiColumnField =
  mcf_fields :: "(string \<times> 'f) list"
  name :: string
  key :: string
  names :: "string list"
  field_names :: "(string \<times> string) list"
  instance_class :: instance_class

text \<open>The methods that the body of the generated class \<open>MultiColumnFieldInstance\<close>
  defines: \<open>__init__\<close>, \<open>to_dict\<close> and \<open>__repr__\<close>.\<close>

datatype meth = M_init | M_to_dict | M_repr

text \<open>
  The values an attribute can hold: \<open>None\<close>, booleans, integers, strings, a reference
  to an object of the store (a model instance or any other mutable object; the
  reference is what an assignment copies), the key view \<open>fields.keys()\<close> of a field,
  a field object, and a bound method of a view.
\<close>

datatype 'f pyval =
    PyNone
  | PyBool bool
  | PyInt int
  | PyStr string
  | PyRef addr
  | PyKeys "string list"
  | PyField "'f MultiColumnField"
  | PyMethod meth

type_synonym 'f pyobj = "string \<rightharpoonup> 'f pyval"

type_synonym 'f pydict = "(string \<times> 'f pyval) list"

text \<open>Python truthiness, as used by \<open>not x\<close>. Objects, fields and methods define neither
  \<open>__bool__\<close> nor \<open>__len__\<close> and are true.\<close>

fun truthy :: "'f pyval \<Rightarrow> bool" where
  "truthy PyNone = False"
| "truthy (PyBool b) = b"
| "truthy (PyInt i) = (i \<noteq> 0)"
| "truthy (PyStr s) = (s \<noteq> [])"
| "truthy (PyRef r) = True"
| "truthy (PyKeys ks) = (ks \<noteq> [])"
| "truthy (PyField f) = True"
| "truthy (PyMethod m) = True"

definition dict_eq :: "'f pydict \<Rightarrow> 'f pydict \<Rightarrow> bool" where
  "dict_eq d1 d2 \<longleftrightarrow> map_of d1 = map_of d2"

text \<open>
  A property object installed on a generated view class. It is represented by the name
  of the physical column it was made for. A member of a view class is a function of
  the class body or such a property.
\<close>

datatype property = Property string

datatype member = Function meth | Prop property

text \<open>
  The mutable part of the Python runtime that the package touches: the attribute
  dictionaries of the objects (\<open>heap\<close>), the attribute tables of the generated view
  classes (\<open>class_attrs\<close>, written by the class body and by
  \<open>setattr(MultiColumnFieldInstance, name, prop)\<close>) and the allocator of class objects
  (\<open>next_class\<close>).
\<close>

record 'f state =
  heap :: "addr \<Rightarrow> 'f pyobj"
  class_attrs :: "nat \<Rightarrow> (string \<rightharpoonup> member)"
  next_class :: nat

text \<open>\<open>getattr(obj, attr)\<close>, \<open>getattr(obj, attr, default)\<close> and \<open>setattr(obj, attr, v)\<close>
  on an object of the store.\<close>

definition obj_getattr :: "'f state \<Rightarrow> addr \<Rightarrow> string \<Rightarrow> error + 'f pyval" where
  "obj_getattr st obj attr =
     (case heap st obj attr of None \<Rightarrow> Inl AttributeError | Some v \<Rightarrow> Inr v)"

definition obj_getattr_default :: "'f state \<Rightarrow> addr \<Rightarrow> string \<Rightarrow> 'f pyval \<Rightarrow> 'f pyval" where
  "obj_getattr_default st obj attr dflt =
     (case obj_getattr st obj attr of Inl e \<Rightarrow> dflt | Inr v \<Rightarrow> v)"

definition obj_setattr :: "addr \<Rightarrow> string \<Rightarrow> 'f pyval \<Rightarrow> 'f state \<Rightarrow> 'f state" where
  "obj_setattr obj attr v st = st\<lparr>heap := (heap st)(obj := (heap st obj)(attr \<mapsto> v))\<rparr>"

text \<open>
  The same three operations on a value. Only a reference to an object carries the
  column attributes; on every other value the read fails with \<open>AttributeError\<close> (which
  \<open>getattr\<close> with a default turns into the default) and so does the write.
\<close>

definition val_getattr :: "'f state \<Rightarrow> 'f pyval \<Rightarrow> string \<Rightarrow> error + 'f pyval" where
  "val_getattr st x attr =
     (case x of PyRef obj \<Rightarrow> obj_getattr st obj attr | _ \<Rightarrow> Inl AttributeError)"

definition val_getattr_default :: "'f state \<Rightarrow> 'f pyval \<Rightarrow> string \<Rightarrow> 'f pyval \<Rightarrow> 'f pyval" where
  "val_getattr_default st x attr dflt =
     (case val_getattr st x attr of Inl e \<Rightarrow> dflt | Inr v \<Rightarrow> v)"

definition val_setattr ::
  "'f pyval \<Rightarrow> string \<Rightarrow> 'f pyval \<Rightarrow> 'f state \<Rightarrow> error option \<times> 'f state" where
  "val_setattr x attr v st =
     (case x of PyRef obj \<Rightarrow> (None, obj_setattr obj attr v st) | _ \<Rightarrow> (Some AttributeError, st))"

text \<open>\<open>for name in x\<close>: the key view yields its keys, a string its characters, and no
  other value is iterable.\<close>

definition py_iter :: "'f pyval \<Rightarrow> error + string list" where
  "py_iter x =
     (case x of PyKeys ks \<Rightarrow> Inr ks | PyStr s \<Rightarrow> Inr (map (\<lambda>c. [c]) s) | _ \<Rightarrow> Inl TypeError)"

text \<open>
  \<open>x.field_names[name]\<close>: on a field the lookup in its \<open>field_names\<close>, with \<open>KeyError\<close>
  for a missing name; on an object of the store the attribute \<open>field_names\<close>, should
  it have one, holds a value that cannot be subscripted by a name; every other value
  has no such attribute.
\<close>

definition field_names_item :: "'f state \<Rightarrow> 'f pyval \<Rightarrow> string \<Rightarrow> error + string" where
  "field_names_item st x n =
     (case x of
        PyField f \<Rightarrow> (case map_of (field_names f) n of None \<Rightarrow> Inl KeyError | Some c \<Rightarrow> Inr c)
      | PyRef obj \<Rightarrow> (case obj_getattr st obj ''field_names'' of Inl e \<Rightarrow> Inl e | Inr y \<Rightarrow> Inl TypeError)
      | _ \<Rightarrow> Inl AttributeError)"

section \<open>The composite field and its generated view class\<close>

text \<open>
  An object of the generated class \<open>MultiColumnFieldInstance\<close>: the class it belongs to
  and its own attribute dictionary, which \<open>__init__\<close> fills (\<open>content_type\<close>, \<open>instance\<close>,
  \<open>field\<close>, \<open>names\<close>).
\<close>

record 'f MultiColumnFieldInstance =
  view_class :: nat
  view_dict :: "'f pyobj"

text \<open>
  The owning model class, as far as the package writes to it: the columns handed to the
  host's \<open>cls.add_to_class(field_name, field)\<close>, in call order, and the class members
  set by \<open>setattr(cls, name, self)\<close>. \<open>add_to_class\<close> itself belongs to the host ORM; it
  is taken to record the column on the class.
\<close>

record 'f model_class =
  columns :: "(string \<times> 'f) list"
  members :: "string \<rightharpoonup> 'f MultiColumnField"

definition add_to_class :: "string \<Rightarrow> 'f \<Rightarrow> 'f model_class \<Rightarrow> 'f model_class" where
  "add_to_class field_name f cls = cls\<lparr>columns := columns cls @ [(field_name, f)]\<rparr>"

subsection \<open>Construction\<close>

text \<open>
  The value of a \<open>fields\<close> attribute or argument: \<open>None\<close> or a dict.
\<close>

datatype 'f pyfields = FNone | FDict "(string \<times> 'f) list"

fun truthy_fields :: "'f pyfields \<Rightarrow> bool" where
  "truthy_fields FNone = False"
| "truthy_fields (FDict d) = (d \<noteq> [])"

text \<open>
  \<open>MultiColumnField.__init__(self, *args, **kwargs)\<close>.
  \<open>cls_fields\<close> is what the attribute lookup \<open>self.fields\<close> finds on the class of \<open>self\<close>
  (\<open>None\<close>: no such attribute; neither \<open>MultiColumnField\<close> nor the host's \<open>Field\<close>
  defines one). \<open>kw_fields\<close> is the entry \<open>fields\<close> of \<open>kwargs\<close>, when there is one, and
  \<open>rest\<close> stands for the other arguments. \<open>super_init\<close> is the host's \<open>Field.__init__\<close>,
  which receives the arguments that are left. The name \<open>ValidationError\<close> is bound
  nowhere in the module, so evaluating \<open>raise ValidationError(...)\<close> raises \<open>NameError\<close>.
  The result is the value of \<open>self.fields\<close> after construction.
\<close>

definition MultiColumnField_init ::
  "('f pyfields option \<Rightarrow> 'k \<Rightarrow> error option) \<Rightarrow> 'f pyfields option \<Rightarrow> 'f pyfields option \<Rightarrow> 'k
     \<Rightarrow> error + 'f pyfields" where
  "MultiColumnField_init super_init cls_fields kw_fields rest =
     (case cls_fields of
        None \<Rightarrow> Inl AttributeError
      | Some cf \<Rightarrow>
          let (self_fields, kw_left) =
                (if \<not> truthy_fields cf
                 then (case kw_fields of None \<Rightarrow> FNone | Some v \<Rightarrow> v, None)
                 else (cf, kw_fields))
          in if \<not> truthy_fields self_fields then Inl NameError
             else (case super_init kw_left rest of
                     Some e \<Rightarrow> Inl e
                   | None \<Rightarrow> Inr self_fields))"

subsection \<open>Attachment to the owning class\<close>

text \<open>The new class object starts with the members its class body defines.\<close>

definition generate_instance_class ::
  "string list \<Rightarrow> 'f state \<Rightarrow> instance_class \<times> 'f state" where
  "generate_instance_class owner_field_names st =
     (\<lparr>class_id = next_class st, owner_names = owner_field_names\<rparr>,
      st\<lparr>class_attrs := (class_attrs st)
             (next_class st := [''__init__'' \<mapsto> Function M_init,
                                ''to_dict'' \<mapsto> Function M_to_dict,
                                ''__repr__'' \<mapsto> Function M_repr]),
         next_class := Suc (next_class st)\<rparr>)"

text \<open>The loop \<open>for suffix, field in self.fields.items()\<close> of \<open>contribute_to_class\<close>.\<close>

fun add_columns ::
  "string \<Rightarrow> (string \<times> 'f) list \<Rightarrow> (string \<times> string) list \<Rightarrow> 'f model_class
     \<Rightarrow> (string \<times> string) list \<times> 'f model_class" where
  "add_columns nm [] fnames cls = (fnames, cls)"
| "add_columns nm ((suffix, f) # rest) fnames cls =
     (let field_name = nm @ ''_'' @ suffix
      in add_columns nm rest (AList.update suffix field_name fnames) (add_to_class field_name f cls))"

text \<open>
  \<open>MultiColumnField.contribute_to_class(self, cls, name)\<close>. The digest function of
  \<open>hashlib\<close> is a parameter.
\<close>

definition contribute_to_class ::
  "(string \<Rightarrow> string) \<Rightarrow> 'f MultiColumnField \<Rightarrow> 'f model_class \<Rightarrow> string \<Rightarrow> 'f state
     \<Rightarrow> 'f MultiColumnField \<times> 'f model_class \<times> 'f state" where
  "contribute_to_class md5_hexdigest self cls nm st =
     (let (fnames, cls1) = add_columns nm (mcf_fields self) [] cls;
          (ic, st1) = generate_instance_class (map fst (mcf_fields self)) st;
          self1 = self\<lparr>name := nm, key := md5_hexdigest nm, names := map fst (mcf_fields self),
                      field_names := fnames, instance_class := ic\<rparr>
      in (self1, cls1\<lparr>members := (members cls1)(nm \<mapsto> self1)\<rparr>, st1))"

subsection \<open>Attribute access on a view\<close>

text \<open>
  Modelled from the spec: the helper \<open>_make_property(view, column)\<close> is called by
  \<open>MultiColumnFieldInstance.__init__\<close> but is defined nowhere in the source files. The spec
  says of the view that it "dynamically exposes each sub-field suffix as a
  readable/writable property that proxies to the corresponding physical column on the
  owning instance", and that the properties of a generated view type "are bound to this
  specific field's sub-field name to physical-column-name mapping". So the property made
  for a column is determined by that column.
\<close>

definition make_property :: "'f MultiColumnFieldInstance \<Rightarrow> string \<Rightarrow> property" where
  "make_property view column = Property column"

text \<open>
  The expression \<open>self.instance\<close> inside the getter or setter of a property. Like every
  attribute read on a view it is answered by a property of the class first. When the
  class has a property under the name \<open>instance\<close>, its getter evaluates \<open>self.instance\<close>
  again, without end: Python stops the recursion with \<open>RecursionError\<close>.
\<close>

definition self_instance :: "'f state \<Rightarrow> 'f MultiColumnFieldInstance \<Rightarrow> error + 'f pyval" where
  "self_instance st self =
     (case class_attrs st (view_class self) ''instance'' of
        Some (Prop p) \<Rightarrow> Inl RecursionError
      | Some (Function m) \<Rightarrow>
          (case view_dict self ''instance'' of Some x \<Rightarrow> Inr x | None \<Rightarrow> Inr (PyMethod m))
      | None \<Rightarrow>
          (case view_dict self ''instance'' of Some x \<Rightarrow> Inr x | None \<Rightarrow> Inl AttributeError))"

text \<open>
  Modelled from the spec: reading the property (the getter that \<open>_make_property\<close> would
  supply, absent from the source) "reads through to the instance on demand": it is
  \<open>getattr(self.instance, column)\<close>, for the view \<open>self\<close> on which the property is read.
\<close>

definition property_get ::
  "property \<Rightarrow> 'f MultiColumnFieldInstance \<Rightarrow> 'f state \<Rightarrow> error + 'f pyval" where
  "property_get p self st =
     (case p of Property column \<Rightarrow>
        (case self_instance st self of
           Inl e \<Rightarrow> Inl e
         | Inr x \<Rightarrow> val_getattr st x column))"

text \<open>
  Modelled from the spec: writing the property (the setter that \<open>_make_property\<close> would
  supply, absent from the source) is \<open>setattr(self.instance, column, value)\<close>;
  "assignment is immediate", with no staging buffer.
\<close>

definition property_set ::
  "property \<Rightarrow> 'f MultiColumnFieldInstance \<Rightarrow> 'f pyval \<Rightarrow> 'f state \<Rightarrow> error option \<times> 'f state" where
  "property_set p self v st =
     (case p of Property column \<Rightarrow>
        (case self_instance st self of
           Inl e \<Rightarrow> (Some e, st)
         | Inr x \<Rightarrow> val_setattr x column v st))"

text \<open>
  \<open>getattr(view, attr)\<close>, Python's attribute lookup on an object: a property of the
  class (a data descriptor) answers first, then the object's own dictionary, then a
  function of the class, which yields the bound method.
\<close>

definition view_getattr ::
  "'f state \<Rightarrow> 'f MultiColumnFieldInstance \<Rightarrow> string \<Rightarrow> error + 'f pyval" where
  "view_getattr st view attr =
     (case class_attrs st (view_class view) attr of
        Some (Prop p) \<Rightarrow> property_get p view st
      | Some (Function m) \<Rightarrow>
          (case view_dict view attr of Some x \<Rightarrow> Inr x | None \<Rightarrow> Inr (PyMethod m))
      | None \<Rightarrow>
          (case view_dict view attr of Some x \<Rightarrow> Inr x | None \<Rightarrow> Inl AttributeError))"

text \<open>\<open>getattr(view, attr, default)\<close>: an \<open>AttributeError\<close> of the lookup, also one raised
  inside a getter, yields the default; any other exception passes.\<close>

definition view_getattr_default ::
  "'f state \<Rightarrow> 'f MultiColumnFieldInstance \<Rightarrow> string \<Rightarrow> 'f pyval \<Rightarrow> error + 'f pyval" where
  "view_getattr_default st view attr dflt =
     (case view_getattr st view attr of
        Inl e \<Rightarrow> if e = AttributeError then Inr dflt else Inl e
      | Inr v \<Rightarrow> Inr v)"

text \<open>\<open>setattr(view, attr, v)\<close>: a property of the class takes the write; otherwise the
  value goes into the view's own dictionary. The result is the exception, if any, the
  view and the state after the write.\<close>

definition view_setattr ::
  "'f MultiColumnFieldInstance \<Rightarrow> string \<Rightarrow> 'f pyval \<Rightarrow> 'f state
     \<Rightarrow> error option \<times> 'f MultiColumnFieldInstance \<times> 'f state" where
  "view_setattr view attr v st =
     (case class_attrs st (view_class view) attr of
        Some (Prop p) \<Rightarrow> (case property_set p view v st of (e, st1) \<Rightarrow> (e, view, st1))
      | _ \<Rightarrow> (None, view\<lparr>view_dict := (view_dict view)(attr \<mapsto> v)\<rparr>, st))"

subsection \<open>The generated view class\<close>

text \<open>The assignments \<open>self.content_type = None\<close> to \<open>self.names = owner_field.names\<close> at
  the head of \<open>MultiColumnFieldInstance.__init__\<close>, one after the other.\<close>

fun set_attributes ::
  "'f MultiColumnFieldInstance \<Rightarrow> (string \<times> 'f pyval) list \<Rightarrow> 'f state
     \<Rightarrow> error option \<times> 'f MultiColumnFieldInstance \<times> 'f state" where
  "set_attributes self [] st = (None, self, st)"
| "set_attributes self ((attr, v) # rest) st =
     (case view_setattr self attr v st of
        (Some e, self1, st1) \<Rightarrow> (Some e, self1, st1)
      | (None, self1, st1) \<Rightarrow> set_attributes self1 rest st1)"

text \<open>The loop of \<open>MultiColumnFieldInstance.__init__\<close>: one property per name, set on the
  class. Each round evaluates \<open>self.field.field_names[name]\<close> anew.\<close>

fun install_properties ::
  "'f MultiColumnFieldInstance \<Rightarrow> string list \<Rightarrow> 'f state \<Rightarrow> error option \<times> 'f state" where
  "install_properties self [] st = (None, st)"
| "install_properties self (n # ns) st =
     (case view_getattr st self ''field'' of
        Inl e \<Rightarrow> (Some e, st)
      | Inr f \<Rightarrow>
          (case field_names_item st f n of
             Inl e \<Rightarrow> (Some e, st)
           | Inr column \<Rightarrow>
               install_properties self ns
                 (st\<lparr>class_attrs := (class_attrs st)
                        (view_class self := (class_attrs st (view_class self))
                                               (n \<mapsto> Prop (make_property self column)))\<rparr>)))"

text \<open>\<open>MultiColumnFieldInstance.__init__(self, instance, field)\<close>, for the class \<open>ic\<close> and
  the new object \<open>self\<close>.\<close>

definition MultiColumnFieldInstance_init ::
  "instance_class \<Rightarrow> 'f MultiColumnFieldInstance \<Rightarrow> addr \<Rightarrow> 'f MultiColumnField \<Rightarrow> 'f state
     \<Rightarrow> (error + 'f MultiColumnFieldInstance) \<times> 'f state" where
  "MultiColumnFieldInstance_init ic self inst fld st =
     (case set_attributes self
             [(''content_type'', PyNone), (''instance'', PyRef inst), (''field'', PyField fld),
              (''names'', PyKeys (owner_names ic))] st of
        (Some e, self1, st1) \<Rightarrow> (Inl e, st1)
      | (None, self1, st1) \<Rightarrow>
          (case view_getattr st1 self1 ''names'' of
             Inl e \<Rightarrow> (Inl e, st1)
           | Inr x \<Rightarrow>
               (case py_iter x of
                  Inl e \<Rightarrow> (Inl e, st1)
                | Inr ns \<Rightarrow>
                    (case install_properties self1 ns st1 of
                       (Some e, st2) \<Rightarrow> (Inl e, st2)
                     | (None, st2) \<Rightarrow> (Inr self1, st2)))))"

text \<open>
  The call \<open>instance_class(instance, field)\<close>: a new object of the class, with an empty
  dictionary, on which \<open>__init__\<close> is looked up and called. When the lookup raises, the
  call raises; when it yields something that is not the method, the call of that value
  raises \<open>TypeError\<close>.
\<close>

definition instance_class_call ::
  "instance_class \<Rightarrow> addr \<Rightarrow> 'f MultiColumnField \<Rightarrow> 'f state
     \<Rightarrow> (error + 'f MultiColumnFieldInstance) \<times> 'f state" where
  "instance_class_call ic inst fld st =
     (let self = \<lparr>view_class = class_id ic, view_dict = Map.empty\<rparr>
      in case view_getattr st self ''__init__'' of
           Inl e \<Rightarrow> (Inl e, st)
         | Inr m \<Rightarrow>
             if m = PyMethod M_init then MultiColumnFieldInstance_init ic self inst fld st
             else (Inl TypeError, st))"

text \<open>The body of \<open>MultiColumnFieldInstance.to_dict(self)\<close>. The arguments of
  \<open>getattr(self.instance, self.field.field_names[name], None)\<close> are evaluated from left
  to right.\<close>

fun to_dict_loop ::
  "'f MultiColumnFieldInstance \<Rightarrow> 'f state \<Rightarrow> string list \<Rightarrow> 'f pydict \<Rightarrow> error + 'f pydict" where
  "to_dict_loop self st [] d = Inr d"
| "to_dict_loop self st (n # ns) d =
     (case view_getattr st self ''instance'' of
        Inl e \<Rightarrow> Inl e
      | Inr i \<Rightarrow>
          (case view_getattr st self ''field'' of
             Inl e \<Rightarrow> Inl e
           | Inr f \<Rightarrow>
               (case field_names_item st f n of
                  Inl e \<Rightarrow> Inl e
                | Inr column \<Rightarrow>
                    to_dict_loop self st ns
                      (AList.update n (val_getattr_default st i column PyNone) d))))"

definition to_dict_body :: "'f MultiColumnFieldInstance \<Rightarrow> 'f state \<Rightarrow> error + 'f pydict" where
  "to_dict_body self st =
     (case view_getattr st self ''names'' of
        Inl e \<Rightarrow> Inl e
      | Inr x \<Rightarrow>
          (case py_iter x of
             Inl e \<Rightarrow> Inl e
           | Inr ns \<Rightarrow> to_dict_loop self st ns []))"

text \<open>The call \<open>view.to_dict()\<close>: the attribute \<open>to_dict\<close> is looked up on the view and the
  result is called.\<close>

definition to_dict :: "'f MultiColumnFieldInstance \<Rightarrow> 'f state \<Rightarrow> error + 'f pydict" where
  "to_dict view st =
     (case view_getattr st view ''to_dict'' of
        Inl e \<Rightarrow> Inl e
      | Inr m \<Rightarrow> if m = PyMethod M_to_dict then to_dict_body view st else Inl TypeError)"

subsection \<open>The descriptor: reading and assigning the composite attribute\<close>

datatype 'f get_result = Descriptor "'f MultiColumnField" | View "'f MultiColumnFieldInstance"

text \<open>\<open>MultiColumnField.__get__(self, instance, type)\<close>; \<open>instance\<close> is \<open>None\<close> when the
  attribute is read on the class.\<close>

definition MultiColumnField_get ::
  "'f MultiColumnField \<Rightarrow> addr option \<Rightarrow> 'f state \<Rightarrow> (error + 'f get_result) \<times> 'f state" where
  "MultiColumnField_get self inst st =
     (case inst of
        None \<Rightarrow> (Inr (Descriptor self), st)
      | Some i \<Rightarrow>
          (case instance_class_call (instance_class self) i self st of
             (Inl e, st1) \<Rightarrow> (Inl e, st1)
           | (Inr v, st1) \<Rightarrow> (Inr (View v), st1)))"

text \<open>The values that can be assigned: a view (of some generated class), a dict, or
  anything else.\<close>

datatype 'f pyvalue =
  ViewValue "'f MultiColumnFieldInstance" | DictValue "'f pydict" | OtherValue "'f pyval"

fun isinstance_view :: "'f pyvalue \<Rightarrow> instance_class \<Rightarrow> bool" where
  "isinstance_view (ViewValue v) ic = (view_class v = class_id ic)"
| "isinstance_view (DictValue d) ic = False"
| "isinstance_view (OtherValue x) ic = False"

fun isinstance_dict :: "'f pyvalue \<Rightarrow> bool" where
  "isinstance_dict (DictValue d) = True"
| "isinstance_dict (ViewValue v) = False"
| "isinstance_dict (OtherValue x) = False"

text \<open>The loop \<open>setattr(temp_field_instance, name, getattr(value, name, None))\<close>. What
  is read is what is written: a reference stays the same reference.\<close>

fun copy_from_view ::
  "'f MultiColumnFieldInstance \<Rightarrow> 'f MultiColumnFieldInstance \<Rightarrow> string list \<Rightarrow> 'f state
     \<Rightarrow> error option \<times> 'f state" where
  "copy_from_view temp src [] st = (None, st)"
| "copy_from_view temp src (n # ns) st =
     (case view_getattr_default st src n PyNone of
        Inl e \<Rightarrow> (Some e, st)
      | Inr x \<Rightarrow>
          (case view_setattr temp n x st of
             (Some e, temp1, st1) \<Rightarrow> (Some e, st1)
           | (None, temp1, st1) \<Rightarrow> copy_from_view temp1 src ns st1))"

text \<open>The loop \<open>setattr(temp_field_instance, name, value[name])\<close>; \<open>value[name]\<close> raises
  \<open>KeyError\<close> on a missing key, before the attribute is set.\<close>

fun copy_from_dict ::
  "'f MultiColumnFieldInstance \<Rightarrow> 'f pydict \<Rightarrow> string list \<Rightarrow> 'f state
     \<Rightarrow> error option \<times> 'f state" where
  "copy_from_dict temp d [] st = (None, st)"
| "copy_from_dict temp d (n # ns) st =
     (case map_of d n of
        None \<Rightarrow> (Some KeyError, st)
      | Some x \<Rightarrow>
          (case view_setattr temp n x st of
             (Some e, temp1, st1) \<Rightarrow> (Some e, st1)
           | (None, temp1, st1) \<Rightarrow> copy_from_dict temp1 d ns st1))"

text \<open>\<open>MultiColumnField.__set__(self, instance, value)\<close>. The result is the exception
  raised, if any, and the state the call leaves behind. The two \<open>isinstance\<close> tests are
  tried in the source's order; inside a branch the value has the shape its test
  established, so the remaining cases of the inner \<open>case\<close> are never reached.\<close>

definition MultiColumnField_set ::
  "'f MultiColumnField \<Rightarrow> addr \<Rightarrow> 'f pyvalue \<Rightarrow> 'f state \<Rightarrow> error option \<times> 'f state" where
  "MultiColumnField_set self inst val st =
     (if isinstance_view val (instance_class self) then
        (case instance_class_call (instance_class self) inst self st of
           (Inl e, st1) \<Rightarrow> (Some e, st1)
         | (Inr temp_field_instance, st1) \<Rightarrow>
             (case val of
                ViewValue src \<Rightarrow> copy_from_view temp_field_instance src (names self) st1
              | _ \<Rightarrow> (None, st1)))
      else if isinstance_dict val then
        (case instance_class_call (instance_class self) inst self st of
           (Inl e, st1) \<Rightarrow> (Some e, st1)
         | (Inr temp_field_instance, st1) \<Rightarrow>
             (case val of
                DictValue d \<Rightarrow> copy_from_dict temp_field_instance d (names self) st1
              | _ \<Rightarrow> (None, st1)))
      else (Some TypeError, st))"

section \<open>The admin mixin of the override field\<close>

text \<open>
  \<open>OverrideFieldAdminMixin.save_model(self, request, obj, form, change)\<close>, for the
  \<open>field_name\<close> given to \<open>override_field_factory\<close>. \<open>obj.save()\<close> belongs to the host
  ORM and is a parameter: it receives the object and the state in which it is called.
\<close>

definition save_model ::
  "(addr \<Rightarrow> 'f state \<Rightarrow> 'r) \<Rightarrow> string \<Rightarrow> 'req \<Rightarrow> addr \<Rightarrow> 'form \<Rightarrow> 'chg \<Rightarrow> 'f state \<Rightarrow> error + 'r" where
  "save_model obj_save field_name request obj form change st =
     (case obj_getattr st obj (field_name @ ''_enable_override'') of
        Inl e \<Rightarrow> Inl e
      | Inr enable \<Rightarrow>
          (let st1 = (if \<not> truthy enable
                      then obj_setattr obj (field_name @ ''_override_obj'') PyNone st
                      else st)
           in Inr (obj_save obj st1)))"

section \<open>Sub-field names and the view's own attributes\<close>

text \<open>
  \<open>MultiColumnFieldInstance.__init__\<close> sets a property on the view class under every
  sub-field name. A sub-field named like an attribute that \<open>__init__\<close> assigns, or like
  the method \<open>to_dict\<close>, therefore takes the place of that attribute or method on all
  views of the field. The names of the form \<open>__x__\<close> are reserved by Python for the
  object protocol (\<open>__init__\<close>, \<open>__repr__\<close>, \<open>__class__\<close>, \<open>__getattribute__\<close>, ...); of
  these the theory follows \<open>__init__\<close> only, and the statements about views leave all
  of them out together with the view's own names.
\<close>

definition view_attribute_names :: "string list" where
  "view_attribute_names = [''content_type'', ''instance'', ''field'', ''names'', ''to_dict'']"

definition special_name :: "string \<Rightarrow> bool" where
  "special_name n \<longleftrightarrow> 4 \<le> length n \<and> take 2 n = ''__'' \<and> drop (length n - 2) n = ''__''"

definition reserved :: "string \<Rightarrow> bool" where
  "reserved n \<longleftrightarrow> n \<in> set view_attribute_names \<or> special_name n"

text \<open>
  The members of view class \<open>c\<close> that a view relies on are those of the class body:
  \<open>__init__\<close> and \<open>to_dict\<close> are the functions defined there, and no property stands
  under the names of the attributes that \<open>__init__\<close> assigns. This holds when the class
  is generated, and for a field without reserved sub-field names it holds ever after.
\<close>

definition class_intact :: "'f state \<Rightarrow> nat \<Rightarrow> bool" where
  "class_intact st c \<longleftrightarrow>
       class_attrs st c ''__init__'' = Some (Function M_init)
     \<and> class_attrs st c ''to_dict'' = Some (Function M_to_dict)
     \<and> class_attrs st c ''content_type'' = None
     \<and> class_attrs st c ''instance'' = None
     \<and> class_attrs st c ''field'' = None
     \<and> class_attrs st c ''names'' = None"

text \<open>A view whose dictionary holds the four attributes that \<open>__init__\<close> assigns: what
  the constructor builds when it meets no property under their names.\<close>

definition plain_view ::
  "nat \<Rightarrow> addr \<Rightarrow> 'f MultiColumnField \<Rightarrow> string list \<Rightarrow> 'f MultiColumnFieldInstance" where
  "plain_view c inst fld ks =
     \<lparr>view_class = c,
      view_dict = [''content_type'' \<mapsto> PyNone, ''instance'' \<mapsto> PyRef inst,
                   ''field'' \<mapsto> PyField fld, ''names'' \<mapsto> PyKeys ks]\<rparr>"

text \<open>The view that \<open>self.instance_class(instance, self)\<close> constructs for a field in that
  case.\<close>

definition view_of :: "'f MultiColumnField \<Rightarrow> addr \<Rightarrow> 'f MultiColumnFieldInstance" where
  "view_of fld inst =
     plain_view (class_id (instance_class fld)) inst fld (owner_names (instance_class fld))"

text \<open>\<open>obj.column.attr\<close> and \<open>obj.column.attr = v\<close>: reading and changing, in place, the
  value that a column of an object holds.\<close>

definition column_attr :: "'f state \<Rightarrow> addr \<Rightarrow> string \<Rightarrow> string \<Rightarrow> error + 'f pyval" where
  "column_attr st obj column attr =
     (case obj_getattr st obj column of Inl e \<Rightarrow> Inl e | Inr x \<Rightarrow> val_getattr st x attr)"

definition set_column_attr ::
  "addr \<Rightarrow> string \<Rightarrow> string \<Rightarrow> 'f pyval \<Rightarrow> 'f state \<Rightarrow> error option \<times> 'f state" where
  "set_column_attr obj column attr v st =
     (case obj_getattr st obj column of Inl e \<Rightarrow> (Some e, st) | Inr x \<Rightarrow> val_setattr x attr v st)"

section \<open>Concrete scenarios\<close>

text \<open>
  The scenario of the spec: a composite field \<open>price\<close> with the sub-fields \<open>amount\<close> and
  \<open>currency\<close>, declared on a model class without other columns, in a runtime whose
  objects have no attributes yet. Sub-field specifications are named by strings here.
\<close>

definition declared :: "(string \<times> string) list \<Rightarrow> string MultiColumnField" where
  "declared fs = \<lparr>mcf_fields = fs, name = [], key = [], names = [], field_names = [],
     instance_class = \<lparr>class_id = 0, owner_names = []\<rparr>\<rparr>"

definition price_decl :: "string MultiColumnField" where
  "price_decl = declared [(''amount'', ''DecimalField''), (''currency'', ''CharField'')]"

definition empty_model :: "string model_class" where
  "empty_model = \<lparr>columns = [], members = Map.empty\<rparr>"

definition fresh_state :: "'f state" where
  "fresh_state = \<lparr>heap = (\<lambda>a. Map.empty), class_attrs = (\<lambda>c. Map.empty), next_class = 0\<rparr>"

definition price_field :: "string MultiColumnField" where
  "price_field = fst (contribute_to_class (\<lambda>s. s) price_decl empty_model ''price'' fresh_state)"

definition price_model :: "string model_class" where
  "price_model = fst (snd (contribute_to_class (\<lambda>s. s) price_decl empty_model ''price'' fresh_state))"

definition price_state :: "string state" where
  "price_state = snd (snd (contribute_to_class (\<lambda>s. s) price_decl empty_model ''price'' fresh_state))"

text \<open>The runtime after instance 0 got the value 10 in its column \<open>price_amount\<close>; its
  column \<open>price_currency\<close> is not set.\<close>

definition demo_state :: "string state" where
  "demo_state = obj_setattr 0 ''price_amount'' (PyInt 10) price_state"

text \<open>The runtime in which the column \<open>price_amount\<close> of instance 0 holds a mutable
  object, object 7, whose attribute \<open>value\<close> is 10.\<close>

definition shared_state :: "string state" where
  "shared_state =
     obj_setattr 0 ''price_amount'' (PyRef 7) (obj_setattr 7 ''value'' (PyInt 10) price_state)"

text \<open>An object saved through the admin mixin generated for the field name \<open>discount\<close>:
  the value \<open>X\<close> was entered, with the override switched off and on.\<close>

definition override_off_state :: "string state" where
  "override_off_state =
     obj_setattr 0 ''discount_override_obj'' (PyStr ''X'')
       (obj_setattr 0 ''discount_enable_override'' (PyBool False) fresh_state)"

definition override_on_state :: "string state" where
  "override_on_state =
     obj_setattr 0 ''discount_override_obj'' (PyStr ''X'')
       (obj_setattr 0 ''discount_enable_override'' (PyBool True) fresh_state)"

text \<open>
  A field \<open>target\<close> in the manner of a generic relation, with the sub-fields
  \<open>content_type\<close> and \<open>object_id\<close>, and a field \<open>roster\<close> with the sub-fields \<open>names\<close>
  and \<open>size\<close>: each has a sub-field named like an attribute of its views.
\<close>

definition target_decl :: "string MultiColumnField" where
  "target_decl = declared [(''content_type'', ''ForeignKey''), (''object_id'', ''IntegerField'')]"

definition target_field :: "string MultiColumnField" where
  "target_field = fst (contribute_to_class (\<lambda>s. s) target_decl empty_model ''target'' fresh_state)"

definition target_state :: "string state" where
  "target_state = snd (snd (contribute_to_class (\<lambda>s. s) target_decl empty_model ''target'' fresh_state))"

definition roster_decl :: "string MultiColumnField" where
  "roster_decl = declared [(''names'', ''TextField''), (''size'', ''IntegerField'')]"

definition roster_field :: "string MultiColumnField" where
  "roster_field = fst (contribute_to_class (\<lambda>s. s) roster_decl empty_model ''roster'' fresh_state)"

definition roster_state :: "string state" where
  "roster_state = snd (snd (contribute_to_class (\<lambda>s. s) roster_decl empty_model ''roster'' fresh_state))"

text \<open>The states after the composite attribute was read once on instance 0, and, for
  \<open>price\<close>, after the view read there was then assigned to instance 1.\<close>

definition target_read_state :: "string state" where
  "target_read_state = snd (MultiColumnField_get target_field (Some 0) target_state)"

definition shared_read_state :: "string state" where
  "shared_read_state = snd (MultiColumnField_get price_field (Some 0) shared_state)"

definition shared_copied_state :: "string state" where
  "shared_copied_state =
     snd (MultiColumnField_set price_field 1 (ViewValue (view_of price_field 0)) shared_read_state)"

section \<open>Column registration\<close>

lemma add_columns_columns:
  "columns (snd (add_columns nm fs fnames cls)) =
     columns cls @ map (\<lambda>(suffix, f). (nm @ ''_'' @ suffix, f)) fs"
  by (induction fs arbitrary: fnames cls) (auto simp: add_to_class_def Let_def)

lemma add_columns_names_old:
  "s \<notin> fst ` set fs \<Longrightarrow> map_of (fst (add_columns nm fs fnames cls)) s = map_of fnames s"
  by (induction fs arbitrary: fnames cls) (auto simp: Let_def update_conv')

lemma add_columns_names_new:
  "s \<in> fst ` set fs \<Longrightarrow> map_of (fst (add_columns nm fs fnames cls)) s = Some (nm @ ''_'' @ s)"
proof (induction fs arbitrary: fnames cls)
  case Nil
  then show ?case by simp
next
  case (Cons p fs)
  obtain suffix f where p: "p = (suffix, f)" by (cases p)
  show ?case
  proof (cases "s \<in> fst ` set fs")
    case True
    then show ?thesis using Cons.IH p by (simp add: Let_def)
  next
    case False
    with Cons.prems p have "s = suffix" by auto
    with False p show ?thesis
      by (simp add: Let_def add_columns_names_old update_conv')
  qed
qed

lemma contribute_to_class_field:
  assumes "contribute_to_class md5_hexdigest self cls nm st = (fld, cls1, st1)"
  shows "names fld = map fst (mcf_fields self)"
    and "owner_names (instance_class fld) = names fld"
    and "name fld = nm"
    and "n \<in> set (names fld) \<Longrightarrow> map_of (field_names fld) n = Some (nm @ ''_'' @ n)"
proof -
  obtain fnames cls0 where ac: "add_columns nm (mcf_fields self) [] cls = (fnames, cls0)"
    by (cases "add_columns nm (mcf_fields self) [] cls")
  from assms ac show n: "names fld = map fst (mcf_fields self)"
    and "owner_names (instance_class fld) = names fld" and "name fld = nm"
    by (auto simp: contribute_to_class_def generate_instance_class_def Let_def)
  from assms ac have f: "field_names fld = fnames"
    by (auto simp: contribute_to_class_def generate_instance_class_def Let_def)
  show "map_of (field_names fld) n = Some (nm @ ''_'' @ n)" if "n \<in> set (names fld)"
    using add_columns_names_new [of n "mcf_fields self" nm "[]" cls] that n f ac by simp
qed

lemma contribute_to_class_intact:
  assumes "contribute_to_class md5_hexdigest self cls nm st = (fld, cls1, st1)"
  shows "class_intact st1 (class_id (instance_class fld))"
  using assms
  by (auto simp: contribute_to_class_def generate_instance_class_def Let_def class_intact_def
      split: prod.splits)

section \<open>Views, reads and assignments\<close>

lemma obj_setattr_simps [simp]:
  "class_attrs (obj_setattr obj attr v st) = class_attrs st"
  "next_class (obj_setattr obj attr v st) = next_class st"
  "heap (obj_setattr obj attr v st) = (heap st)(obj := (heap st obj)(attr \<mapsto> v))"
  by (simp_all add: obj_setattr_def)

lemma obj_getattr_default_heap:
  "obj_getattr_default st obj attr dflt = (case heap st obj attr of None \<Rightarrow> dflt | Some v \<Rightarrow> v)"
  by (simp add: obj_getattr_default_def obj_getattr_def split: option.splits)

lemma val_getattr_default_ref:
  "val_getattr_default st (PyRef obj) attr dflt = obj_getattr_default st obj attr dflt"
  by (simp add: val_getattr_default_def val_getattr_def obj_getattr_default_def)

lemma class_intact_obj_setattr [simp]:
  "class_intact (obj_setattr obj attr v st) c = class_intact st c"
  by (simp add: class_intact_def)

lemma reserved_names:
  "reserved ''content_type''" "reserved ''instance''" "reserved ''field''" "reserved ''names''"
  "reserved ''to_dict''" "reserved ''__init__''"
  by (simp_all add: reserved_def view_attribute_names_def special_name_def)

subsection \<open>Reading and writing a sub-field through its property\<close>

lemma view_getattr_property:
  assumes "class_attrs st (view_class v) n = Some (Prop (Property column))"
    and "class_attrs st (view_class v) ''instance'' = None"
    and "view_dict v ''instance'' = Some (PyRef a)"
  shows "view_getattr st v n = obj_getattr st a column"
  using assms by (simp add: view_getattr_def property_get_def self_instance_def val_getattr_def)

lemma view_getattr_default_property:
  assumes "class_attrs st (view_class v) n = Some (Prop (Property column))"
    and "class_attrs st (view_class v) ''instance'' = None"
    and "view_dict v ''instance'' = Some (PyRef a)"
  shows "view_getattr_default st v n dflt = Inr (obj_getattr_default st a column dflt)"
  using view_getattr_property [OF assms]
  by (simp add: view_getattr_default_def obj_getattr_default_def obj_getattr_def
      split: option.splits)

lemma view_getattr_default_total:
  assumes "class_attrs st (view_class v) n = Some (Prop (Property column))"
    and "class_attrs st (view_class v) ''instance'' = None"
  shows "\<exists>x. view_getattr_default st v n dflt = Inr x"
  using assms
  by (auto simp: view_getattr_default_def view_getattr_def property_get_def self_instance_def
      val_getattr_def obj_getattr_def split: option.splits pyval.splits)

lemma view_setattr_property:
  assumes "class_attrs st (view_class v) n = Some (Prop (Property column))"
    and "class_attrs st (view_class v) ''instance'' = None"
    and "view_dict v ''instance'' = Some (PyRef a)"
  shows "view_setattr v n x st = (None, v, obj_setattr a column x st)"
  using assms by (simp add: view_setattr_def property_set_def self_instance_def val_setattr_def)

lemma view_setattr_class_attrs:
  "class_attrs (snd (snd (view_setattr v n x st))) = class_attrs st"
  by (auto simp: view_setattr_def property_set_def val_setattr_def
      split: option.splits member.splits property.splits sum.splits pyval.splits)

subsection \<open>Constructing a view\<close>

lemma install_properties_heap: "heap (snd (install_properties self ns st)) = heap st"
  by (induction ns arbitrary: st) (auto split: sum.splits)

lemma install_properties_result:
  assumes "view_dict v ''field'' = Some (PyField fld)"
    and "class_attrs st (view_class v) ''field'' = None"
    and "''field'' \<notin> set ns"
    and "\<forall>n\<in>set ns. map_of (field_names fld) n = Some (col n)"
  shows "fst (install_properties v ns st) = None
       \<and> (\<forall>c a. class_attrs (snd (install_properties v ns st)) c a =
              (if c = view_class v \<and> a \<in> set ns then Some (Prop (Property (col a)))
               else class_attrs st c a))"
  using assms
proof (induction ns arbitrary: st)
  case Nil
  then show ?case by simp
next
  case (Cons m ns)
  let ?st1 = "st\<lparr>class_attrs := (class_attrs st)
                   (view_class v := (class_attrs st (view_class v))
                                          (m \<mapsto> Prop (make_property v (col m))))\<rparr>"
  from Cons.prems have m: "map_of (field_names fld) m = Some (col m)" and mf: "m \<noteq> ''field''"
    by auto
  have g: "view_getattr st v ''field'' = Inr (PyField fld)"
    using Cons.prems(1,2) by (simp add: view_getattr_def)
  have step: "install_properties v (m # ns) st = install_properties v ns ?st1"
    using g m by (simp add: field_names_item_def)
  have "class_attrs ?st1 (view_class v) ''field'' = None"
    using Cons.prems(2) mf by simp
  moreover have "''field'' \<notin> set ns" using Cons.prems(3) by simp
  moreover have "\<forall>n\<in>set ns. map_of (field_names fld) n = Some (col n)"
    using Cons.prems(4) by simp
  ultimately have IH: "fst (install_properties v ns ?st1) = None"
    "\<And>c a. class_attrs (snd (install_properties v ns ?st1)) c a =
              (if c = view_class v \<and> a \<in> set ns then Some (Prop (Property (col a)))
               else class_attrs ?st1 c a)"
    using Cons.IH [OF Cons.prems(1), of ?st1] by auto
  show ?case unfolding step using IH by (auto simp: make_property_def)
qed


lemma set_attributes_intact:
  assumes "class_intact st c"
  shows "set_attributes \<lparr>view_class = c, view_dict = Map.empty\<rparr>
           [(''content_type'', PyNone), (''instance'', PyRef inst), (''field'', PyField fld),
            (''names'', PyKeys ks)] st
         = (None,
            \<lparr>view_class = c,
             view_dict = [''content_type'' \<mapsto> PyNone, ''instance'' \<mapsto> PyRef inst,
                          ''field'' \<mapsto> PyField fld, ''names'' \<mapsto> PyKeys ks]\<rparr>, st)"
  using assms by (simp add: class_intact_def view_setattr_def)

lemma call_intact:
  assumes "class_intact st (class_id ic)"
  shows "instance_class_call ic inst fld st =
     (let v = \<lparr>view_class = class_id ic,
               view_dict = [''content_type'' \<mapsto> PyNone, ''instance'' \<mapsto> PyRef inst,
                            ''field'' \<mapsto> PyField fld, ''names'' \<mapsto> PyKeys (owner_names ic)]\<rparr>
      in case install_properties v (owner_names ic) st of
           (Some e, st2) \<Rightarrow> (Inl e, st2)
         | (None, st2) \<Rightarrow> (Inr v, st2))"
proof -
  have i: "view_getattr st \<lparr>view_class = class_id ic, view_dict = Map.empty\<rparr> ''__init__''
             = Inr (PyMethod M_init)"
    using assms by (simp add: view_getattr_def class_intact_def)
  have n: "view_getattr st \<lparr>view_class = class_id ic,
               view_dict = [''content_type'' \<mapsto> PyNone, ''instance'' \<mapsto> PyRef inst,
                            ''field'' \<mapsto> PyField fld, ''names'' \<mapsto> PyKeys (owner_names ic)]\<rparr> ''names''
             = Inr (PyKeys (owner_names ic))"
    using assms by (simp add: view_getattr_def class_intact_def)
  show ?thesis
    unfolding instance_class_call_def Let_def i MultiColumnFieldInstance_init_def
      set_attributes_intact [OF assms]
    by (simp add: n py_iter_def)
qed

lemma call_attached:
  assumes own: "owner_names (instance_class fld) = names fld"
    and fn: "\<forall>n\<in>set (names fld). map_of (field_names fld) n = Some (col n)"
    and nres: "\<forall>n\<in>set (names fld). \<not> reserved n"
    and intact: "class_intact st (class_id (instance_class fld))"
  shows "\<exists>st1. instance_class_call (instance_class fld) inst fld st = (Inr (view_of fld inst), st1)
         \<and> heap st1 = heap st
         \<and> class_intact st1 (class_id (instance_class fld))
         \<and> (\<forall>n\<in>set (names fld).
               class_attrs st1 (class_id (instance_class fld)) n = Some (Prop (Property (col n))))"
proof -
  let ?c = "class_id (instance_class fld)"
  let ?v = "view_of fld inst"
  have vd: "view_dict ?v ''field'' = Some (PyField fld)" and vc: "view_class ?v = ?c"
    by (simp_all add: view_of_def plain_view_def)
  have nf: "class_attrs st (view_class ?v) ''field'' = None"
    using intact by (simp add: class_intact_def view_of_def plain_view_def)
  have notin: "''field'' \<notin> set (names fld)" "''instance'' \<notin> set (names fld)"
    "''names'' \<notin> set (names fld)" "''content_type'' \<notin> set (names fld)"
    "''to_dict'' \<notin> set (names fld)" "''__init__'' \<notin> set (names fld)"
    using nres reserved_names by blast+
  obtain e st1 where i: "install_properties ?v (names fld) st = (e, st1)"
    by (cases "install_properties ?v (names fld) st")
  from install_properties_result [OF vd nf notin(1) fn] i
  have e: "e = None"
    and t: "\<And>c a. class_attrs st1 c a =
              (if c = ?c \<and> a \<in> set (names fld) then Some (Prop (Property (col a)))
               else class_attrs st c a)"
    by (simp_all add: vc)
  have h: "heap st1 = heap st"
    using install_properties_heap [of ?v "names fld" st] i by simp
  have c: "instance_class_call (instance_class fld) inst fld st = (Inr ?v, st1)"
    using call_intact [OF intact, of inst fld] i e own
    by (simp add: view_of_def plain_view_def Let_def)
  have int1: "class_intact st1 ?c"
    using intact notin by (simp add: class_intact_def t)
  show ?thesis using c h int1 t by auto
qed


lemma plain_view_simps [simp]:
  "view_class (plain_view c inst fld ks) = c"
  "view_dict (plain_view c inst fld ks) ''instance'' = Some (PyRef inst)"
  "view_dict (plain_view c inst fld ks) ''field'' = Some (PyField fld)"
  "view_dict (plain_view c inst fld ks) ''names'' = Some (PyKeys ks)"
  "view_dict (plain_view c inst fld ks) ''to_dict'' = None"
  by (simp_all add: plain_view_def)

lemma view_of_simps [simp]:
  "view_class (view_of fld inst) = class_id (instance_class fld)"
  "view_dict (view_of fld inst) ''instance'' = Some (PyRef inst)"
  by (simp_all add: view_of_def)

subsection \<open>to_dict\<close>

lemma plain_view_reads:
  assumes "class_intact st c"
  shows "view_getattr st (plain_view c inst fld ks) ''instance'' = Inr (PyRef inst)"
    and "view_getattr st (plain_view c inst fld ks) ''field'' = Inr (PyField fld)"
    and "view_getattr st (plain_view c inst fld ks) ''names'' = Inr (PyKeys ks)"
    and "view_getattr st (plain_view c inst fld ks) ''to_dict'' = Inr (PyMethod M_to_dict)"
  using assms by (simp_all add: view_getattr_def class_intact_def)

lemma to_dict_loop_result:
  assumes "class_intact st c"
    and "\<forall>n\<in>set ns. map_of (field_names fld) n = Some (col n)"
  shows "\<exists>d1. to_dict_loop (plain_view c inst fld ks) st ns d = Inr d1
            \<and> map_of d1 = (\<lambda>n. if n \<in> set ns
                                 then Some (obj_getattr_default st inst (col n) PyNone)
                                 else map_of d n)"
  using assms(2)
proof (induction ns arbitrary: d)
  case Nil
  then show ?case by simp
next
  case (Cons m ns)
  let ?d = "AList.update m (obj_getattr_default st inst (col m) PyNone) d"
  from Cons.prems have m: "map_of (field_names fld) m = Some (col m)" by simp
  from Cons.prems have "\<forall>n\<in>set ns. map_of (field_names fld) n = Some (col n)" by simp
  from Cons.IH [OF this, of ?d] obtain d1 where
    d1: "to_dict_loop (plain_view c inst fld ks) st ns ?d = Inr d1"
      "map_of d1 = (\<lambda>n. if n \<in> set ns
                         then Some (obj_getattr_default st inst (col n) PyNone)
                         else map_of ?d n)"
    by blast
  have "to_dict_loop (plain_view c inst fld ks) st (m # ns) d = Inr d1"
    using m d1(1) plain_view_reads(1,2) [OF assms(1)]
    by (simp add: field_names_item_def val_getattr_default_ref)
  moreover have "map_of d1 = (\<lambda>n. if n \<in> set (m # ns)
                         then Some (obj_getattr_default st inst (col n) PyNone)
                         else map_of d n)"
    using d1(2) by (auto simp: update_conv' fun_eq_iff)
  ultimately show ?case by blast
qed

lemma to_dict_plain:
  assumes "class_intact st c"
    and "\<forall>n\<in>set ks. map_of (field_names fld) n = Some (col n)"
  shows "\<exists>d1. to_dict (plain_view c inst fld ks) st = Inr d1
            \<and> map_of d1 = (\<lambda>n. if n \<in> set ks
                                 then Some (obj_getattr_default st inst (col n) PyNone)
                                 else None)"
  using to_dict_loop_result [OF assms, of inst ks "[]"] plain_view_reads(3,4) [OF assms(1)]
  by (auto simp: to_dict_def to_dict_body_def py_iter_def cong: if_cong)

lemma to_dict_loop_heap:
  assumes "class_intact st c" and "class_intact st' c" and "heap st inst = heap st' inst"
  shows "to_dict_loop (plain_view c inst fld ks) st ns d
           = to_dict_loop (plain_view c inst fld ks) st' ns d"
proof (induction ns arbitrary: d)
  case Nil
  show ?case by simp
next
  case (Cons n ns)
  have "obj_getattr_default st inst column PyNone = obj_getattr_default st' inst column PyNone"
    for column
    unfolding obj_getattr_default_heap assms(3) ..
  then show ?case
    using Cons.IH plain_view_reads(1,2) [OF assms(1)] plain_view_reads(1,2) [OF assms(2)]
    by (simp add: field_names_item_def val_getattr_default_ref split: option.splits)
qed

lemma to_dict_heap:
  assumes "class_intact st c" and "class_intact st' c" and "heap st inst = heap st' inst"
  shows "to_dict (plain_view c inst fld ks) st = to_dict (plain_view c inst fld ks) st'"
  using to_dict_loop_heap [OF assms, of fld ks ks "[]"]
    plain_view_reads(3,4) [OF assms(1)] plain_view_reads(3,4) [OF assms(2)]
  by (simp add: to_dict_def to_dict_body_def py_iter_def)

subsection \<open>The copy loops\<close>

lemma copy_from_dict_class_attrs:
  "class_attrs (snd (copy_from_dict temp d ns st)) = class_attrs st"
proof (induction ns arbitrary: temp st)
  case Nil
  show ?case by simp
next
  case (Cons n ns)
  show ?case
  proof (cases "map_of d n")
    case None
    then show ?thesis by simp
  next
    case (Some x)
    obtain e t1 s1 where w: "view_setattr temp n x st = (e, t1, s1)"
      by (cases "view_setattr temp n x st")
    have c: "class_attrs s1 = class_attrs st"
      using view_setattr_class_attrs [of temp n x st] w by simp
    show ?thesis using Some w c Cons.IH [of t1 s1] by (cases e) simp_all
  qed
qed

lemma copy_from_view_class_attrs:
  "class_attrs (snd (copy_from_view temp src ns st)) = class_attrs st"
proof (induction ns arbitrary: temp st)
  case Nil
  show ?case by simp
next
  case (Cons n ns)
  show ?case
  proof (cases "view_getattr_default st src n PyNone")
    case (Inl e)
    then show ?thesis by simp
  next
    case (Inr x)
    obtain e t1 s1 where w: "view_setattr temp n x st = (e, t1, s1)"
      by (cases "view_setattr temp n x st")
    have c: "class_attrs s1 = class_attrs st"
      using view_setattr_class_attrs [of temp n x st] w by simp
    show ?thesis using Inr w c Cons.IH [of t1 s1] by (cases e) simp_all
  qed
qed



lemma copy_from_view_result:
  assumes "\<forall>n\<in>set ns. class_attrs st c n = Some (Prop (Property (nm @ ''_'' @ n)))"
    and "class_attrs st c ''instance'' = None"
    and "view_class temp = c" and "view_dict temp ''instance'' = Some (PyRef b)"
    and "view_class src = c" and "view_dict src ''instance'' = Some (PyRef a)"
  shows "fst (copy_from_view temp src ns st) = None
       \<and> (\<forall>obj attr. heap (snd (copy_from_view temp src ns st)) obj attr =
            (if obj = b \<and> attr \<in> (\<lambda>n. nm @ ''_'' @ n) ` set ns
             then Some (obj_getattr_default st a attr PyNone)
             else heap st obj attr))"
  using assms(1,2)
proof (induction ns arbitrary: st)
  case Nil
  then show ?case by simp
next
  case (Cons m ns)
  from Cons.prems assms(3,5)
  have pm: "class_attrs st (view_class temp) m = Some (Prop (Property (nm @ ''_'' @ m)))"
    and ps: "class_attrs st (view_class src) m = Some (Prop (Property (nm @ ''_'' @ m)))"
    and it: "class_attrs st (view_class temp) ''instance'' = None"
    and isrc: "class_attrs st (view_class src) ''instance'' = None"
    by simp_all
  let ?x = "obj_getattr_default st a (nm @ ''_'' @ m) PyNone"
  let ?st1 = "obj_setattr b (nm @ ''_'' @ m) ?x st"
  have step: "copy_from_view temp src (m # ns) st = copy_from_view temp src ns ?st1"
    using view_getattr_default_property [OF ps isrc assms(6)]
      view_setattr_property [OF pm it assms(4)] by simp
  have "\<forall>n\<in>set ns. class_attrs ?st1 c n = Some (Prop (Property (nm @ ''_'' @ n)))"
    using Cons.prems by simp
  moreover have "class_attrs ?st1 c ''instance'' = None" using Cons.prems by simp
  ultimately have IH: "fst (copy_from_view temp src ns ?st1) = None"
    "\<And>obj attr. heap (snd (copy_from_view temp src ns ?st1)) obj attr =
            (if obj = b \<and> attr \<in> (\<lambda>n. nm @ ''_'' @ n) ` set ns
             then Some (obj_getattr_default ?st1 a attr PyNone)
             else heap ?st1 obj attr)"
    using Cons.IH [of ?st1] by auto
  have rd: "obj_getattr_default ?st1 a attr PyNone = obj_getattr_default st a attr PyNone"
    if "attr \<noteq> nm @ ''_'' @ m \<or> a \<noteq> b" for attr
    using that by (auto simp: obj_getattr_default_heap)
  have rd2: "obj_getattr_default ?st1 b (nm @ ''_'' @ m) PyNone = ?x"
    by (simp add: obj_getattr_default_heap)
  show ?case unfolding step using IH(1)
    apply (intro conjI allI)
     apply simp
    subgoal for obj attr
      apply (simp only: IH(2))
      apply (cases "obj = b")
       apply (cases "attr = nm @ ''_'' @ m")
        apply (cases "a = b")
      using rd rd2 apply (auto simp: obj_getattr_default_heap)
      done
    done
qed

lemma copy_from_dict_frame:
  assumes "\<forall>n\<in>set ns. class_attrs st (view_class temp) n = Some (Prop (Property (col n)))"
    and "class_attrs st (view_class temp) ''instance'' = None"
    and "view_dict temp ''instance'' = Some (PyRef b)"
    and "obj \<noteq> b"
  shows "heap (snd (copy_from_dict temp d ns st)) obj = heap st obj"
  using assms(1,2)
proof (induction ns arbitrary: st)
  case Nil
  show ?case by simp
next
  case (Cons m ns)
  show ?case
  proof (cases "map_of d m")
    case None
    then show ?thesis by simp
  next
    case (Some x)
    have pm: "class_attrs st (view_class temp) m = Some (Prop (Property (col m)))"
      using Cons.prems(1) by simp
    let ?st1 = "obj_setattr b (col m) x st"
    have step: "copy_from_dict temp d (m # ns) st = copy_from_dict temp d ns ?st1"
      using Some view_setattr_property [OF pm Cons.prems(2) assms(3)] by simp
    have "heap (snd (copy_from_dict temp d ns ?st1)) obj = heap ?st1 obj"
      using Cons.prems by (intro Cons.IH) simp_all
    then show ?thesis unfolding step using assms(4) by simp
  qed
qed

lemma copy_from_view_frame:
  assumes "\<forall>n\<in>set ns. class_attrs st (view_class temp) n = Some (Prop (Property (col n)))"
    and "class_attrs st (view_class temp) ''instance'' = None"
    and "view_dict temp ''instance'' = Some (PyRef b)"
    and "obj \<noteq> b"
  shows "heap (snd (copy_from_view temp src ns st)) obj = heap st obj"
  using assms(1,2)
proof (induction ns arbitrary: st)
  case Nil
  show ?case by simp
next
  case (Cons m ns)
  show ?case
  proof (cases "view_getattr_default st src m PyNone")
    case (Inl e)
    then show ?thesis by simp
  next
    case (Inr x)
    have pm: "class_attrs st (view_class temp) m = Some (Prop (Property (col m)))"
      using Cons.prems(1) by simp
    let ?st1 = "obj_setattr b (col m) x st"
    have step: "copy_from_view temp src (m # ns) st = copy_from_view temp src ns ?st1"
      using Inr view_setattr_property [OF pm Cons.prems(2) assms(3)] by simp
    have "heap (snd (copy_from_view temp src ns ?st1)) obj = heap ?st1 obj"
      using Cons.prems by (intro Cons.IH) simp_all
    then show ?thesis unfolding step using assms(4) by simp
  qed
qed

subsection \<open>Reading and assigning the composite attribute of an attached field\<close>

lemma get_attached:
  assumes own: "owner_names (instance_class fld) = names fld"
    and fn: "\<forall>n\<in>set (names fld). map_of (field_names fld) n = Some (col n)"
    and nres: "\<forall>n\<in>set (names fld). \<not> reserved n"
    and intact: "class_intact st (class_id (instance_class fld))"
  shows "\<exists>st1. MultiColumnField_get fld (Some inst) st = (Inr (View (view_of fld inst)), st1)
         \<and> heap st1 = heap st \<and> class_intact st1 (class_id (instance_class fld))"
  using call_attached [OF own fn nres intact, of inst]
  by (auto simp: MultiColumnField_get_def)

lemma to_dict_attached:
  assumes own: "owner_names (instance_class fld) = names fld"
    and fn: "\<forall>n\<in>set (names fld). map_of (field_names fld) n = Some (col n)"
    and intact: "class_intact st (class_id (instance_class fld))"
  shows "\<exists>d1. to_dict (view_of fld inst) st = Inr d1
            \<and> map_of d1 = (\<lambda>n. if n \<in> set (names fld)
                                 then Some (obj_getattr_default st inst (col n) PyNone)
                                 else None)"
  using to_dict_plain [OF intact, of "names fld" fld col inst] fn own
  by (simp add: view_of_def)


lemma set_view_attached:
  assumes own: "owner_names (instance_class fld) = names fld"
    and fn: "\<forall>n\<in>set (names fld). map_of (field_names fld) n = Some (nm @ ''_'' @ n)"
    and nres: "\<forall>n\<in>set (names fld). \<not> reserved n"
    and intact: "class_intact st (class_id (instance_class fld))"
    and cls: "view_class src = class_id (instance_class fld)"
    and src: "view_dict src ''instance'' = Some (PyRef a)"
  shows "\<exists>st2. MultiColumnField_set fld inst (ViewValue src) st = (None, st2)
          \<and> class_intact st2 (class_id (instance_class fld))
          \<and> (\<forall>obj attr. heap st2 obj attr =
               (if obj = inst \<and> attr \<in> (\<lambda>n. nm @ ''_'' @ n) ` set (names fld)
                then Some (obj_getattr_default st a attr PyNone)
                else heap st obj attr))"
proof -
  let ?c = "class_id (instance_class fld)"
  from call_attached [OF own fn nres intact, of inst] obtain st1 where
    i: "instance_class_call (instance_class fld) inst fld st = (Inr (view_of fld inst), st1)"
    and h: "heap st1 = heap st"
    and int1: "class_intact st1 ?c"
    and p: "\<forall>n\<in>set (names fld). class_attrs st1 ?c n = Some (Prop (Property (nm @ ''_'' @ n)))"
    by blast
  have s: "MultiColumnField_set fld inst (ViewValue src) st
             = copy_from_view (view_of fld inst) src (names fld) st1"
    using i cls by (simp add: MultiColumnField_set_def)
  have ni: "class_attrs st1 ?c ''instance'' = None"
    using int1 by (simp add: class_intact_def)
  have vc: "view_class (view_of fld inst) = ?c"
    and vi: "view_dict (view_of fld inst) ''instance'' = Some (PyRef inst)" by simp_all
  obtain e st2 where c: "copy_from_view (view_of fld inst) src (names fld) st1 = (e, st2)"
    by (cases "copy_from_view (view_of fld inst) src (names fld) st1")
  have g: "obj_getattr_default st1 a attr PyNone = obj_getattr_default st a attr PyNone" for attr
    using h by (simp add: obj_getattr_default_heap)
  from copy_from_view_result [OF p ni vc vi cls src] c h g have "e = None"
    and "\<forall>obj attr. heap st2 obj attr =
               (if obj = inst \<and> attr \<in> (\<lambda>n. nm @ ''_'' @ n) ` set (names fld)
                then Some (obj_getattr_default st a attr PyNone)
                else heap st obj attr)"
    by simp_all
  moreover have "class_intact st2 ?c"
    using copy_from_view_class_attrs [of "view_of fld inst" src "names fld" st1] c int1
    by (simp add: class_intact_def)
  ultimately show ?thesis using s c by simp
qed

lemma set_frame:
  assumes own: "owner_names (instance_class fld) = names fld"
    and fn: "\<forall>n\<in>set (names fld). map_of (field_names fld) n = Some (col n)"
    and nres: "\<forall>n\<in>set (names fld). \<not> reserved n"
    and intact: "class_intact st (class_id (instance_class fld))"
  shows "class_intact (snd (MultiColumnField_set fld inst val st)) (class_id (instance_class fld))
       \<and> (\<forall>obj. obj \<noteq> inst \<longrightarrow> heap (snd (MultiColumnField_set fld inst val st)) obj = heap st obj)"
proof -
  let ?c = "class_id (instance_class fld)"
  let ?v = "view_of fld inst"
  from call_attached [OF own fn nres intact, of inst] obtain st1 where
    i: "instance_class_call (instance_class fld) inst fld st = (Inr ?v, st1)"
    and h: "heap st1 = heap st"
    and int1: "class_intact st1 ?c"
    and p: "\<forall>n\<in>set (names fld). class_attrs st1 ?c n = Some (Prop (Property (col n)))"
    by blast
  have p': "\<forall>n\<in>set (names fld). class_attrs st1 (view_class ?v) n = Some (Prop (Property (col n)))"
    using p by simp
  have ni: "class_attrs st1 (view_class ?v) ''instance'' = None"
    using int1 by (simp add: class_intact_def)
  have vi: "view_dict ?v ''instance'' = Some (PyRef inst)" by simp
  have cd: "class_intact (snd (copy_from_dict ?v d (names fld) st1)) ?c" for d
    using copy_from_dict_class_attrs [of ?v d "names fld" st1] int1 by (simp add: class_intact_def)
  have cv: "class_intact (snd (copy_from_view ?v src (names fld) st1)) ?c" for src
    using copy_from_view_class_attrs [of ?v src "names fld" st1] int1 by (simp add: class_intact_def)
  have fd: "heap (snd (copy_from_dict ?v d (names fld) st1)) obj = heap st obj"
    if "obj \<noteq> inst" for d obj
    using copy_from_dict_frame [OF p' ni vi that] h by simp
  have fv: "heap (snd (copy_from_view ?v src (names fld) st1)) obj = heap st obj"
    if "obj \<noteq> inst" for src obj
    using copy_from_view_frame [OF p' ni vi that] h by simp
  show ?thesis
  proof (cases val)
    case (ViewValue src)
    then show ?thesis using i intact cv fv by (simp add: MultiColumnField_set_def)
  next
    case (DictValue d)
    then show ?thesis using i intact cd fd by (simp add: MultiColumnField_set_def)
  next
    case (OtherValue x)
    then show ?thesis using intact by (simp add: MultiColumnField_set_def)
  qed
qed

text \<open>The members of the view class stay those of the class body: attachment makes them
  so, and for a field without reserved sub-field names every read, every assignment
  and every write to an object keeps them so.\<close>

lemma class_intact_kept:
  assumes attach: "contribute_to_class md5_hexdigest self cls nm st0 = (fld, cls1, st1)"
    and nres: "\<forall>n\<in>set (names fld). \<not> reserved n"
  shows "class_intact st1 (class_id (instance_class fld))"
    and "class_intact st (class_id (instance_class fld)) \<Longrightarrow>
           class_intact (snd (MultiColumnField_get fld inst st)) (class_id (instance_class fld))"
    and "class_intact st (class_id (instance_class fld)) \<Longrightarrow>
           class_intact (snd (MultiColumnField_set fld obj val st)) (class_id (instance_class fld))"
    and "class_intact st (class_id (instance_class fld)) \<Longrightarrow>
           class_intact (obj_setattr obj attr v st) (class_id (instance_class fld))"
proof -
  have own: "owner_names (instance_class fld) = names fld"
    and fn: "\<forall>n\<in>set (names fld). map_of (field_names fld) n = Some (nm @ ''_'' @ n)"
    using contribute_to_class_field [OF attach] by auto
  show "class_intact st1 (class_id (instance_class fld))"
    by (rule contribute_to_class_intact [OF attach])
  show "class_intact (snd (MultiColumnField_get fld inst st)) (class_id (instance_class fld))"
    if i: "class_intact st (class_id (instance_class fld))"
  proof (cases inst)
    case None
    then show ?thesis using i by (simp add: MultiColumnField_get_def)
  next
    case (Some a)
    then show ?thesis using get_attached [OF own fn nres i, of a] by auto
  qed
  show "class_intact (snd (MultiColumnField_set fld obj val st)) (class_id (instance_class fld))"
    if i: "class_intact st (class_id (instance_class fld))"
    using set_frame [OF own fn nres i, of obj val] by simp
  show "class_intact (obj_setattr obj attr v st) (class_id (instance_class fld))"
    if i: "class_intact st (class_id (instance_class fld))"
    using i by simp
qed

lemma price_attached:
  "contribute_to_class (\<lambda>s. s) price_decl empty_model ''price'' fresh_state
     = (price_field, price_model, price_state)"
  by (simp add: price_field_def price_model_def price_state_def)

lemma price_field_eval:
  "price_field = \<lparr>mcf_fields = [(''amount'', ''DecimalField''), (''currency'', ''CharField'')],
     name = ''price'', key = ''price'', names = [''amount'', ''currency''],
     field_names = [(''amount'', ''price_amount''), (''currency'', ''price_currency'')],
     instance_class = \<lparr>class_id = 0, owner_names = [''amount'', ''currency'']\<rparr>\<rparr>"
  by (simp add: price_field_def price_decl_def declared_def contribute_to_class_def empty_model_def
      fresh_state_def generate_instance_class_def add_to_class_def Let_def)

lemma price_names_free: "\<forall>n\<in>set (names price_field). \<not> reserved n"
  by (simp add: price_field_eval reserved_def view_attribute_names_def special_name_def)

lemma price_names_explicit: "\<not> reserved ''amount''" "\<not> reserved ''currency''"
  by (simp_all add: reserved_def view_attribute_names_def special_name_def)

lemma price_intact: "class_intact price_state (class_id (instance_class price_field))"
  by (rule contribute_to_class_intact [OF price_attached])

lemma price_heap: "heap price_state = (\<lambda>a. Map.empty)"
  by (simp add: price_state_def contribute_to_class_def Let_def
        generate_instance_class_def fresh_state_def split: prod.splits)

lemmas scenario_defs =
  target_field_def target_state_def target_decl_def roster_field_def roster_state_def
  roster_decl_def declared_def empty_model_def fresh_state_def
  contribute_to_class_def generate_instance_class_def add_to_class_def Let_def

lemmas view_defs =
  MultiColumnField_get_def MultiColumnField_set_def instance_class_call_def
  MultiColumnFieldInstance_init_def view_getattr_def view_getattr_default_def view_setattr_def
  property_get_def property_set_def self_instance_def make_property_def
  val_getattr_def val_getattr_default_def val_setattr_def obj_getattr_def obj_setattr_def
  py_iter_def field_names_item_def to_dict_def to_dict_body_def

lemma demo_intact: "class_intact demo_state (class_id (instance_class price_field))"
  using price_intact by (simp add: demo_state_def)

lemma demo_heap: "heap demo_state 0 = [''price_amount'' \<mapsto> PyInt 10]"
  by (simp add: demo_state_def price_heap)

section \<open>The claim about column registration\<close>

text \<open>
  Claim C1. Attaching a composite field whose declared mapping has N entries calls the
  host's registration once per entry: the class gains exactly N columns, named
  \<open>name_suffix\<close>, in the order of the mapping, with pairwise different names;
  \<open>names\<close> holds the suffixes, and \<open>field_names\<close> maps each suffix to the column name
  generated for it, and nothing else.
\<close>

theorem contribute_to_class_registers_columns:
  assumes attach: "contribute_to_class md5_hexdigest self cls nm st = (self1, cls1, st1)"
    and keys: "distinct (map fst (mcf_fields self))"
  shows "columns cls1 = columns cls @ map (\<lambda>(suffix, f). (nm @ ''_'' @ suffix, f)) (mcf_fields self)
       \<and> length (columns cls1) = length (columns cls) + length (mcf_fields self)
       \<and> distinct (map fst (drop (length (columns cls)) (columns cls1)))
       \<and> names self1 = map fst (mcf_fields self)
       \<and> map_of (field_names self1) =
           (\<lambda>suffix. if suffix \<in> set (names self1) then Some (nm @ ''_'' @ suffix) else None)"
proof -
  obtain fnames cls0 where ac: "add_columns nm (mcf_fields self) [] cls = (fnames, cls0)"
    by (cases "add_columns nm (mcf_fields self) [] cls")
  from attach ac have self1: "field_names self1 = fnames" "names self1 = map fst (mcf_fields self)"
    and cls1: "columns cls1 = columns cls0"
    by (auto simp: contribute_to_class_def generate_instance_class_def Let_def)
  have cols: "columns cls1 = columns cls @ map (\<lambda>(suffix, f). (nm @ ''_'' @ suffix, f)) (mcf_fields self)"
    using add_columns_columns [of nm "mcf_fields self" "[]" cls] ac cls1 by simp
  have "map fst (map (\<lambda>(suffix, f). (nm @ ''_'' @ suffix, f)) (mcf_fields self))
          = map (\<lambda>suffix. nm @ ''_'' @ suffix) (map fst (mcf_fields self))"
    by (induction "mcf_fields self") (auto simp: case_prod_beta)
  then have dist: "distinct (map fst (drop (length (columns cls)) (columns cls1)))"
    using keys cols by (simp add: distinct_map inj_on_def)
  have fn: "map_of fnames suffix =
      (if suffix \<in> set (map fst (mcf_fields self)) then Some (nm @ ''_'' @ suffix) else None)" for suffix
    using add_columns_names_new [of suffix "mcf_fields self" nm "[]" cls]
      add_columns_names_old [of suffix "mcf_fields self" nm "[]" cls] ac
    by auto
  show ?thesis using cols dist fn self1 by auto
qed

theorem contribute_to_class_registers_columns_witness:
  "distinct (map fst (mcf_fields price_decl))
   \<and> columns price_model = [(''price_amount'', ''DecimalField''), (''price_currency'', ''CharField'')]
   \<and> names price_field = [''amount'', ''currency'']
   \<and> map_of (field_names price_field) ''amount'' = Some ''price_amount''
   \<and> map_of (field_names price_field) ''currency'' = Some ''price_currency''
   \<and> map_of (field_names price_field) ''price'' = None"
proof -
  have a: "contribute_to_class (\<lambda>s. s) price_decl empty_model ''price'' fresh_state
             = (price_field, price_model, price_state)"
    by (simp add: price_field_def price_model_def price_state_def)
  have k: "distinct (map fst (mcf_fields price_decl))"
    by (simp add: price_decl_def declared_def)
  show ?thesis
    using k contribute_to_class_registers_columns [OF a k]
    by (simp add: price_decl_def declared_def empty_model_def)
qed

section \<open>The claims about views and assignment\<close>







text \<open>
  Claim C3, for sub-field names that do not shadow the view and with the copy taken for
  what it is, a copy of references. For an attached field none of whose sub-field names
  is reserved, a state in which its view class has its own members, and instances \<open>a\<close>
  and \<open>b\<close>: assigning to \<open>b\<close> the view read on \<open>a\<close> succeeds and stores, for every
  sub-field, the very value the view yields (a reference stays the same reference) in
  the column of \<open>b\<close>; right after, \<open>to_dict()\<close> on \<open>b\<close> equals \<open>to_dict()\<close> on \<open>a\<close> (after
  and before the assignment). When \<open>a\<close> and \<open>b\<close> are different objects, a later write to
  any attribute of \<open>a\<close>, or a later assignment of any value to the composite attribute
  of \<open>a\<close>, leaves the attributes of \<open>b\<close> and its \<open>to_dict()\<close> as they are. A change made
  inside a mutable value that both columns reference is seen through both, and a
  sub-field named \<open>content_type\<close> makes the assignment raise: see the counterexample.
\<close>

theorem set_view_copies_columns:
  assumes attach: "contribute_to_class md5_hexdigest self cls nm st0 = (fld, cls1, st1)"
    and nres: "\<forall>n\<in>set (names fld). \<not> reserved n"
    and intact: "class_intact st (class_id (instance_class fld))"
  shows "\<exists>v1 sta stb vb stc da db.
           MultiColumnField_get fld (Some a) st = (Inr (View v1), sta)
         \<and> MultiColumnField_set fld b (ViewValue v1) sta = (None, stb)
         \<and> (\<forall>n\<in>set (names fld).
               heap stb b (nm @ ''_'' @ n) = Some (obj_getattr_default sta a (nm @ ''_'' @ n) PyNone))
         \<and> MultiColumnField_get fld (Some b) stb = (Inr (View vb), stc)
         \<and> to_dict vb stc = Inr db \<and> to_dict v1 stc = Inr da \<and> dict_eq db da
         \<and> (\<exists>da0. to_dict v1 sta = Inr da0 \<and> dict_eq db da0)
         \<and> (a \<noteq> b \<longrightarrow>
               (\<forall>attr x. heap (obj_setattr a attr x stc) b = heap stc b
                        \<and> to_dict vb (obj_setattr a attr x stc) = Inr db)
             \<and> (\<forall>val. heap (snd (MultiColumnField_set fld a val stc)) b = heap stc b
                      \<and> to_dict vb (snd (MultiColumnField_set fld a val stc)) = Inr db))"
proof -
  let ?col = "\<lambda>n. nm @ ''_'' @ n"
  let ?c = "class_id (instance_class fld)"
  have own: "owner_names (instance_class fld) = names fld"
    and fn: "\<forall>n\<in>set (names fld). map_of (field_names fld) n = Some (?col n)"
    using contribute_to_class_field [OF attach] by auto
  from get_attached [OF own fn nres intact, of a] obtain sta where
    g0: "MultiColumnField_get fld (Some a) st = (Inr (View (view_of fld a)), sta)"
    and inta: "class_intact sta ?c"
    by blast
  have vc: "view_class (view_of fld a) = ?c"
    and va: "view_dict (view_of fld a) ''instance'' = Some (PyRef a)"
    by simp_all
  from set_view_attached [OF own fn nres inta vc va, of b] obtain stb where
    s: "MultiColumnField_set fld b (ViewValue (view_of fld a)) sta = (None, stb)"
    and intb: "class_intact stb ?c"
    and hb: "\<And>obj attr. heap stb obj attr =
               (if obj = b \<and> attr \<in> ?col ` set (names fld)
                then Some (obj_getattr_default sta a attr PyNone)
                else heap sta obj attr)"
    by blast
  have copied: "\<forall>n\<in>set (names fld).
      heap stb b (?col n) = Some (obj_getattr_default sta a (?col n) PyNone)"
    by (simp add: hb)
  from get_attached [OF own fn nres intb, of b] obtain stc where
    g1: "MultiColumnField_get fld (Some b) stb = (Inr (View (view_of fld b)), stc)"
    and hc: "heap stc = heap stb" and intc: "class_intact stc ?c"
    by blast
  from to_dict_attached [OF own fn intc, of b] obtain db where
    tb: "to_dict (view_of fld b) stc = Inr db"
    and mb: "map_of db = (\<lambda>n. if n \<in> set (names fld)
                                 then Some (obj_getattr_default stc b (?col n) PyNone) else None)"
    by blast
  from to_dict_attached [OF own fn intc, of a] obtain da where
    ta: "to_dict (view_of fld a) stc = Inr da"
    and ma: "map_of da = (\<lambda>n. if n \<in> set (names fld)
                                 then Some (obj_getattr_default stc a (?col n) PyNone) else None)"
    by blast
  from to_dict_attached [OF own fn inta, of a] obtain da0 where
    ta0: "to_dict (view_of fld a) sta = Inr da0"
    and ma0: "map_of da0 = (\<lambda>n. if n \<in> set (names fld)
                                 then Some (obj_getattr_default sta a (?col n) PyNone) else None)"
    by blast
  have rb: "obj_getattr_default stc b (?col n) PyNone = obj_getattr_default sta a (?col n) PyNone"
    if "n \<in> set (names fld)" for n
    using that by (simp add: obj_getattr_default_heap hc hb)
  have ra: "obj_getattr_default stc a (?col n) PyNone = obj_getattr_default sta a (?col n) PyNone"
    if "n \<in> set (names fld)" for n
    using that by (cases "a = b") (simp_all add: obj_getattr_default_heap hc hb)
  have e0: "dict_eq db da0"
    unfolding dict_eq_def mb ma0 using rb by auto
  have e1: "dict_eq db da"
    unfolding dict_eq_def mb ma using rb ra by auto
  have indep: "to_dict (view_of fld b) st' = Inr db"
    if "heap st' b = heap stc b" and "class_intact st' ?c" for st'
    using to_dict_heap [OF that(2) intc that(1), of fld "owner_names (instance_class fld)"] tb
    by (simp add: view_of_def)
  have f1: "heap (obj_setattr a attr x stc) b = heap stc b" if "a \<noteq> b" for attr x
    using that by simp
  have i1: "class_intact (obj_setattr a attr x stc) ?c" for attr x
    using intc by simp
  have f2: "heap (snd (MultiColumnField_set fld a val stc)) b = heap stc b" if "a \<noteq> b" for val
    using that set_frame [OF own fn nres intc, of a val] by simp
  have i2: "class_intact (snd (MultiColumnField_set fld a val stc)) ?c" for val
    using set_frame [OF own fn nres intc, of a val] by simp
  have later: "a \<noteq> b \<longrightarrow>
               (\<forall>attr x. heap (obj_setattr a attr x stc) b = heap stc b
                        \<and> to_dict (view_of fld b) (obj_setattr a attr x stc) = Inr db)
             \<and> (\<forall>val. heap (snd (MultiColumnField_set fld a val stc)) b = heap stc b
                      \<and> to_dict (view_of fld b) (snd (MultiColumnField_set fld a val stc)) = Inr db)"
    using indep f1 i1 f2 i2 by blast
  show ?thesis
    by (intro exI conjI, rule g0, rule s, rule copied, rule g1, rule tb, rule ta, rule e1,
        rule ta0, rule e0, rule later)
qed

theorem set_view_copies_columns_witness:
  "\<not> reserved ''amount'' \<and> \<not> reserved ''currency''
   \<and> class_intact demo_state (class_id (instance_class price_field))
   \<and> (0::addr) \<noteq> 1
   \<and> (\<exists>v1 sta stb vb stc da db.
           MultiColumnField_get price_field (Some 0) demo_state = (Inr (View v1), sta)
         \<and> MultiColumnField_set price_field 1 (ViewValue v1) sta = (None, stb)
         \<and> heap stb 1 ''price_amount'' = Some (PyInt 10)
         \<and> heap stb 1 ''price_currency'' = Some PyNone
         \<and> MultiColumnField_get price_field (Some 1) stb = (Inr (View vb), stc)
         \<and> to_dict vb stc = Inr db \<and> to_dict v1 stc = Inr da \<and> dict_eq db da
         \<and> to_dict vb (obj_setattr 0 ''price_amount'' (PyInt 99) stc) = Inr db)"
proof -
  have ne: "(0::addr) \<noteq> 1" by simp
  from set_view_copies_columns [OF price_attached price_names_free demo_intact, of 0 1]
  obtain v1 sta stb vb stc da db where
    g0: "MultiColumnField_get price_field (Some 0) demo_state = (Inr (View v1), sta)"
    and s: "MultiColumnField_set price_field 1 (ViewValue v1) sta = (None, stb)"
    and c: "\<forall>n\<in>set (names price_field).
               heap stb 1 (''price'' @ ''_'' @ n)
                 = Some (obj_getattr_default sta 0 (''price'' @ ''_'' @ n) PyNone)"
    and g1: "MultiColumnField_get price_field (Some 1) stb = (Inr (View vb), stc)"
    and t: "to_dict vb stc = Inr db" "to_dict v1 stc = Inr da" "dict_eq db da"
    and l: "(0::addr) \<noteq> 1 \<longrightarrow>
               (\<forall>attr x. heap (obj_setattr 0 attr x stc) 1 = heap stc 1
                        \<and> to_dict vb (obj_setattr 0 attr x stc) = Inr db)
             \<and> (\<forall>val. heap (snd (MultiColumnField_set price_field 0 val stc)) 1 = heap stc 1
                      \<and> to_dict vb (snd (MultiColumnField_set price_field 0 val stc)) = Inr db)"
    by blast
  have own: "owner_names (instance_class price_field) = names price_field"
    by (simp add: price_field_eval)
  have fn: "\<forall>n\<in>set (names price_field).
              map_of (field_names price_field) n = Some (''price'' @ ''_'' @ n)"
    by (simp add: price_field_eval)
  have hs: "heap sta = heap demo_state"
    using g0 get_attached [OF own fn price_names_free demo_intact, of 0] by auto
  have c1: "heap stb 1 ''price_amount'' = Some (PyInt 10)"
    and c2: "heap stb 1 ''price_currency'' = Some PyNone"
    using c by (simp_all add: price_field_eval obj_getattr_default_heap hs demo_heap)
  have l1: "to_dict vb (obj_setattr 0 ''price_amount'' (PyInt 99) stc) = Inr db"
    using l by simp
  show ?thesis
    by (intro exI conjI, rule price_names_explicit, rule price_names_explicit,
        rule demo_intact, rule ne, rule g0, rule s,
        rule c1, rule c2, rule g1, rule t, rule t, rule t, rule l1)
qed

text \<open>Two ways in which the claim fails as it stands. For the field \<open>target\<close> the
  assignment of the view read on instance 0 raises \<open>AttributeError\<close>. For the field
  \<open>price\<close>, with a mutable object in the column \<open>price_amount\<close> of instance 0, the
  assignment succeeds, and setting an attribute of that object through instance 0
  afterwards changes what the column of instance 1 shows.\<close>

theorem set_view_copies_columns_counterexample:
  "fst (MultiColumnField_get target_field (Some 0) target_state)
     = Inr (View (view_of target_field 0))
   \<and> fst (MultiColumnField_set target_field 1 (ViewValue (view_of target_field 0))
            target_read_state) = Some AttributeError
   \<and> fst (MultiColumnField_get price_field (Some 0) shared_state)
       = Inr (View (view_of price_field 0))
   \<and> fst (MultiColumnField_set price_field 1 (ViewValue (view_of price_field 0))
            shared_read_state) = None
   \<and> column_attr shared_copied_state 1 ''price_amount'' ''value'' = Inr (PyInt 10)
   \<and> fst (set_column_attr 0 ''price_amount'' ''value'' (PyInt 99) shared_copied_state) = None
   \<and> column_attr (snd (set_column_attr 0 ''price_amount'' ''value'' (PyInt 99) shared_copied_state))
        1 ''price_amount'' ''value'' = Inr (PyInt 99)"
  by (simp add: scenario_defs view_defs target_read_state_def shared_read_state_def
      shared_copied_state_def shared_state_def price_state_def price_field_def price_decl_def
      view_of_def plain_view_def column_attr_def set_column_attr_def)




text \<open>
  Claim C6. Assigning a value that is neither a view of the field's generated class nor
  a dict raises \<open>TypeError\<close> and leaves the whole state, hence every column of the
  instance, as it was.
\<close>

theorem set_rejects_other_types:
  assumes "\<not> isinstance_view val (instance_class self)" and "\<not> isinstance_dict val"
  shows "MultiColumnField_set self inst val st = (Some TypeError, st)"
  using assms by (simp add: MultiColumnField_set_def)

theorem set_rejects_other_types_witness:
  "\<not> isinstance_view (OtherValue (PyInt 5)) (instance_class price_field)
   \<and> \<not> isinstance_dict (OtherValue (PyInt 5) :: string pyvalue)
   \<and> MultiColumnField_set price_field 0 (OtherValue (PyInt 5)) demo_state = (Some TypeError, demo_state)"
proof -
  have a: "\<not> isinstance_view (OtherValue (PyInt 5) :: string pyvalue) (instance_class price_field)"
    by simp
  have b: "\<not> isinstance_dict (OtherValue (PyInt 5) :: string pyvalue)" by simp
  show ?thesis using a b set_rejects_other_types [OF a b, of 0 demo_state] by simp
qed




section \<open>The claims about the admin mixin\<close>

text \<open>
  Claim C4. When the \<open>enable_override\<close> column of the saved object is false (or any
  other falsy value), \<open>save_model\<close> calls the host's save on a state in which the
  \<open>override_obj\<close> column of the object is \<open>None\<close>, whatever it held before; a save
  that stores the object's attributes as it finds them stores \<open>None\<close>.
\<close>

theorem save_model_clears_override:
  assumes "heap st obj (field_name @ ''_enable_override'') = Some enable"
    and "\<not> truthy enable"
  shows "save_model obj_save field_name request obj form change st =
           Inr (obj_save obj (obj_setattr obj (field_name @ ''_override_obj'') PyNone st))
       \<and> heap (obj_setattr obj (field_name @ ''_override_obj'') PyNone st) obj
            (field_name @ ''_override_obj'') = Some PyNone
       \<and> save_model (\<lambda>obj st. heap st obj) field_name request obj form change st =
           Inr ((heap st obj)(field_name @ ''_override_obj'' \<mapsto> PyNone))"
  using assms by (simp add: save_model_def obj_getattr_def obj_setattr_def)

theorem save_model_clears_override_witness:
  "heap override_off_state 0 (''discount'' @ ''_enable_override'') = Some (PyBool False)
   \<and> \<not> truthy (PyBool False :: string pyval)
   \<and> heap override_off_state 0 ''discount_override_obj'' = Some (PyStr ''X'')
   \<and> save_model (\<lambda>obj st. heap st obj ''discount_override_obj'') ''discount'' () 0 () True
        override_off_state = Inr (Some PyNone)"
proof -
  have h: "heap override_off_state 0 (''discount'' @ ''_enable_override'') = Some (PyBool False)"
    by (simp add: override_off_state_def obj_setattr_def)
  have f: "\<not> truthy (PyBool False :: string pyval)" by simp
  show ?thesis
    using h f save_model_clears_override [OF h f, of "\<lambda>obj st. heap st obj ''discount_override_obj''" "()" "()" True]
    by (simp add: override_off_state_def obj_setattr_def)
qed

text \<open>
  Claim C8. When the \<open>enable_override\<close> column of the saved object is true (truthy),
  \<open>save_model\<close> calls the host's save on the unchanged state: no attribute of the
  object, \<open>override_obj\<close> included, is touched, and the request, the form and the
  change flag play no part.
\<close>

theorem save_model_keeps_object:
  assumes "heap st obj (field_name @ ''_enable_override'') = Some enable"
    and "truthy enable"
  shows "save_model obj_save field_name request obj form change st = Inr (obj_save obj st)
       \<and> save_model obj_save field_name request obj form change st
           = save_model obj_save field_name request2 obj form2 change2 st"
  using assms by (simp add: save_model_def obj_getattr_def)

theorem save_model_keeps_object_witness:
  "heap override_on_state 0 (''discount'' @ ''_enable_override'') = Some (PyBool True)
   \<and> truthy (PyBool True :: string pyval)
   \<and> save_model (\<lambda>obj st. heap st obj ''discount_override_obj'') ''discount'' () 0 () True
        override_on_state = Inr (Some (PyStr ''X''))"
proof -
  have h: "heap override_on_state 0 (''discount'' @ ''_enable_override'') = Some (PyBool True)"
    by (simp add: override_on_state_def obj_setattr_def)
  have t: "truthy (PyBool True :: string pyval)" by simp
  show ?thesis
    using h t save_model_keeps_object [OF h t, of "\<lambda>obj st. heap st obj ''discount_override_obj''" "()" "()" True "()" "()" True]
    by (simp add: override_on_state_def obj_setattr_def)
qed

section \<open>The claim about construction\<close>

text \<open>
  Claim C5. The claim says that a mapping given through either channel is accepted and
  that a field with no mapping fails with the configuration error. On a class without a
  class-level \<open>fields\<close> attribute the first test \<open>not self.fields\<close> raises
  \<open>AttributeError\<close>, also when the constructor argument \<open>fields\<close> carries a mapping;
  with a class-level \<open>fields = None\<close> and no argument the constructor reaches the
  \<open>raise\<close> statement, whose exception class is unbound, and raises \<open>NameError\<close>.
\<close>

theorem init_ctor_argument_alone_fails:
  "MultiColumnField_init super_init None (Some (FDict [(''amount'', f)])) rest = Inl AttributeError
   \<and> MultiColumnField_init super_init None None rest = Inl AttributeError
   \<and> MultiColumnField_init super_init (Some FNone) None rest = Inl NameError
   \<and> MultiColumnField_init (\<lambda>kw r. None) (Some FNone) (Some (FDict [(''amount'', f)])) rest
        = Inr (FDict [(''amount'', f)])
   \<and> MultiColumnField_init (\<lambda>kw r. None) (Some (FDict [(''amount'', f)])) None rest
        = Inr (FDict [(''amount'', f)])"
  by (simp add: MultiColumnField_init_def)

end
